theory Spec2Isabelle
  imports Main "HOL-Library.Word"
begin

section \<open>Instants and durations\<close>

text \<open>
  The controller computes with Go's \<open>time.Time\<close> and \<open>time.Duration\<close>.

  An instant is the number of nanoseconds since Go's zero time (January 1 of year 1,
  00:00:00 UTC), as an unbounded integer: every instant the wall clock can report is far
  inside the range of \<open>time.Time\<close>, whose limits are not modelled. The zero time is a
  midnight in UTC, so the instants that are midnights in UTC are the multiples of 24 hours.

  A duration is Go's \<open>int64\<close> count of nanoseconds: a 64-bit word read in two's complement
  by \<open>sint\<close>, with wrapping multiplication.
\<close>

type_synonym Time = int
type_synonym Duration = "64 word"

definition minDuration :: Duration where
  "minDuration = - 9223372036854775808"

definition maxDuration :: Duration where
  "maxDuration = 9223372036854775807"

definition Hour :: Duration where
  "Hour = 3600000000000"

text \<open>\<open>Duration.Abs\<close>: the absolute value, with the least duration sent to the greatest.\<close>

definition Duration_Abs :: "Duration \<Rightarrow> Duration" where
  "Duration_Abs d =
     (if 0 \<le> sint d then d
      else if d = minDuration then maxDuration
      else - d)"

text \<open>Go's builtin \<open>max\<close> at type \<open>Duration\<close>.\<close>

definition Duration_max :: "Duration \<Rightarrow> Duration \<Rightarrow> Duration" where
  "Duration_max a b = (if sint a < sint b then b else a)"

definition Time_Add :: "Time \<Rightarrow> Duration \<Rightarrow> Time" where
  "Time_Add t d = t + sint d"

text \<open>\<open>Time.Sub\<close> saturates at the least and the greatest duration.\<close>

definition Time_Sub :: "Time \<Rightarrow> Time \<Rightarrow> Duration" where
  "Time_Sub t u =
     (if t - u < - 9223372036854775808 then minDuration
      else if 9223372036854775807 < t - u then maxDuration
      else word_of_int (t - u))"

definition Time_Before :: "Time \<Rightarrow> Time \<Rightarrow> bool" where
  "Time_Before t u = (t < u)"

text \<open>\<open>Time.Truncate\<close> rounds down to a multiple of \<open>d\<close> since the zero time, and returns
  the instant as it is when \<open>d\<close> is not positive.\<close>

definition Time_Truncate :: "Time \<Rightarrow> Duration \<Rightarrow> Time" where
  "Time_Truncate t d = (if sint d \<le> 0 then t else t - t mod sint d)"

section \<open>The observed state (apis/projects/v1alpha1)\<close>

definition DefaultAccessTokenMaxDuration :: Duration where
  "DefaultAccessTokenMaxDuration = 365 * 24 * Hour"

text \<open>\<open>AccessTokenObservation\<close>: every field is a pointer in the source, an option here.\<close>

record AccessTokenObservation =
  at_TokenID :: "int option"
  at_ExpiresAt :: "Time option"
  at_CreatedAt :: "Time option"
  at_Name :: "string option"
  at_Revoked :: "bool option"
  at_Active :: "bool option"

definition IsRevoked :: "AccessTokenObservation \<Rightarrow> bool" where
  "IsRevoked at = (case at_Revoked at of None \<Rightarrow> False | Some r \<Rightarrow> r)"

text \<open>\<open>ExpiresWithin\<close> reads the clock; the reading is the argument \<open>now\<close>.\<close>

definition ExpiresWithin :: "AccessTokenObservation \<Rightarrow> Duration \<Rightarrow> Time \<Rightarrow> bool" where
  "ExpiresWithin at d now =
     (case at_ExpiresAt at of
        None \<Rightarrow> False
      | Some e \<Rightarrow> Time_Before (Time_Add e (- Duration_Abs d)) now)"

definition TotalDuration :: "AccessTokenObservation \<Rightarrow> Duration" where
  "TotalDuration at =
     (case at_ExpiresAt at of
        None \<Rightarrow> DefaultAccessTokenMaxDuration
      | Some e \<Rightarrow>
          (case at_CreatedAt at of
             None \<Rightarrow> DefaultAccessTokenMaxDuration
           | Some c \<Rightarrow> Time_Sub e c))"

text \<open>The record of the remote service, \<open>gitlab.ProjectAccessToken\<close>, with the fields the
  controller reads. \<open>CreatedAt\<close> and \<open>ExpiresAt\<close> are pointers there; the rest are values.\<close>

record ProjectAccessToken =
  tok_ID :: int
  tok_Name :: string
  tok_CreatedAt :: "Time option"
  tok_ExpiresAt :: "Time option"
  tok_Active :: bool
  tok_Revoked :: bool
  tok_Token :: string
  tok_AccessLevel :: int

text \<open>\<open>CopyFromToken\<close> assigns four fields always and the two instants only when the
  record has them; the receiver is returned updated.\<close>

definition CopyFromToken ::
  "AccessTokenObservation \<Rightarrow> ProjectAccessToken \<Rightarrow> AccessTokenObservation" where
  "CopyFromToken at accessToken =
     (let at1 = at\<lparr>at_TokenID := Some (tok_ID accessToken),
                    at_Name := Some (tok_Name accessToken),
                    at_Active := Some (tok_Active accessToken),
                    at_Revoked := Some (tok_Revoked accessToken)\<rparr>;
          at2 = (case tok_CreatedAt accessToken of
                   None \<Rightarrow> at1
                 | Some c \<Rightarrow> at1\<lparr>at_CreatedAt := Some c\<rparr>)
      in (case tok_ExpiresAt accessToken of
            None \<Rightarrow> at2
          | Some x \<Rightarrow> at2\<lparr>at_ExpiresAt := Some x\<rparr>))"

section \<open>The desired state and the managed resource\<close>

text \<open>References of the runtime library, kept by the name they point at; the controller
  never reads them.\<close>

datatype Reference = Reference string
datatype Selector = Selector "(string \<times> string) list"

record AccessTokenParameters =
  p_ProjectID :: "string option"
  p_ProjectIDRef :: "Reference option"
  p_ProjectIDSelector :: "Selector option"
  p_ExpiresAt :: "Time option"
  p_RotateThreshold :: "Duration option"
  p_AccessLevel :: "int option"
  p_Scopes :: "string list"
  p_Name :: string

text \<open>A status condition, by the three fields its equality compares.\<close>

record Condition =
  cond_Type :: string
  cond_Status :: string
  cond_Reason :: string

text \<open>\<open>AccessToken\<close>: the object's name and annotations, \<open>Spec.ForProvider\<close>, and the
  conditions and \<open>AtProvider\<close> of \<open>Status\<close>.\<close>

record AccessToken =
  ObjectMeta_Name :: string
  ObjectMeta_Annotations :: "string \<rightharpoonup> string"
  Spec_ForProvider :: AccessTokenParameters
  Status_Conditions :: "Condition list"
  Status_AtProvider :: AccessTokenObservation

text \<open>\<open>resource.Managed\<close> is an interface; the controller asserts the dynamic type.\<close>

datatype Managed = AccessTokenResource AccessToken | OtherResource

definition AnnotationKeyExternalName :: string where
  "AnnotationKeyExternalName = ''crossplane.io/external-name''"

definition GetExternalName :: "AccessToken \<Rightarrow> string" where
  "GetExternalName cr =
     (case ObjectMeta_Annotations cr AnnotationKeyExternalName of
        None \<Rightarrow> []
      | Some n \<Rightarrow> n)"

definition SetExternalName :: "AccessToken \<Rightarrow> string \<Rightarrow> AccessToken" where
  "SetExternalName cr n =
     cr\<lparr>ObjectMeta_Annotations := (ObjectMeta_Annotations cr)(AnnotationKeyExternalName \<mapsto> n)\<rparr>"

definition Available :: Condition where
  "Available = \<lparr>cond_Type = ''Ready'', cond_Status = ''True'', cond_Reason = ''Available''\<rparr>"

text \<open>\<open>SetConditions\<close> replaces the conditions of the same type, or appends.\<close>

definition SetConditions :: "Condition list \<Rightarrow> Condition \<Rightarrow> Condition list" where
  "SetConditions cs c =
     (if cond_Type c \<in> set (map cond_Type cs)
      then map (\<lambda>x. if cond_Type x = cond_Type c then c else x) cs
      else cs @ [c])"

section \<open>Errors and the conversions of strconv\<close>

datatype NumErr = ErrSyntax | ErrRange

datatype error =
    NumError string NumErr
  | ClientError string
  | errors_New string
  | errors_Wrapped error string

text \<open>\<open>errors.Wrap\<close> returns nil for a nil error.\<close>

definition errors_Wrap :: "error option \<Rightarrow> string \<Rightarrow> error option" where
  "errors_Wrap err msg = (case err of None \<Rightarrow> None | Some e \<Rightarrow> Some (errors_Wrapped e msg))"

definition errNotAccessToken :: string where
  "errNotAccessToken = ''managed resource is not a Gitlab accesstoken custom resource''"

definition errExternalNameNotInt :: string where
  "errExternalNameNotInt = ''custom resource external name is not an integer''"

definition errFailedParseID :: string where
  "errFailedParseID = ''cannot parse Access Token ID to int''"

definition errCreateFailed :: string where
  "errCreateFailed = ''cannot create Gitlab accesstoken''"

definition errDeleteFailed :: string where
  "errDeleteFailed = ''cannot delete Gitlab accesstoken''"

definition errAccessTokentNotFound :: string where
  "errAccessTokentNotFound = ''cannot find Gitlab accesstoken''"

definition errMissingProjectID :: string where
  "errMissingProjectID = ''missing Spec.ForProvider.ProjectID''"

definition errRotationFailed :: string where
  "errRotationFailed = ''access token rotation failed''"

definition isDigit :: "char \<Rightarrow> bool" where
  "isDigit c = (48 \<le> (of_char c :: nat) \<and> (of_char c :: nat) \<le> 57)"

text \<open>The digits of \<open>strconv.Atoi\<close> in base 10, left to right: a byte that is no digit is a
  syntax error, a value beyond 64 bits a range error, whichever comes first.\<close>

fun scanDigits :: "nat \<Rightarrow> string \<Rightarrow> NumErr + nat" where
  "scanDigits n [] = Inr n"
| "scanDigits n (c # cs) =
     (if \<not> isDigit c then Inl ErrSyntax
      else if 18446744073709551615 < n * 10 + ((of_char c :: nat) - 48) then Inl ErrRange
      else scanDigits (n * 10 + ((of_char c :: nat) - 48)) cs)"

text \<open>\<open>strconv.Atoi\<close> where \<open>int\<close> has 64 bits: an optional sign, then at least one digit,
  and a value that fits.\<close>

definition Atoi :: "string \<Rightarrow> error + int" where
  "Atoi s =
     (case s of
        [] \<Rightarrow> Inl (NumError s ErrSyntax)
      | c # cs \<Rightarrow>
          (let neg = (c = CHR ''-'');
               body = (if c = CHR ''-'' \<or> c = CHR ''+'' then cs else s)
           in if body = [] then Inl (NumError s ErrSyntax)
              else (case scanDigits 0 body of
                      Inl k \<Rightarrow> Inl (NumError s k)
                    | Inr un \<Rightarrow>
                        if \<not> neg \<and> 9223372036854775808 \<le> un then Inl (NumError s ErrRange)
                        else if neg \<and> 9223372036854775808 < un then Inl (NumError s ErrRange)
                        else Inr (if neg then - int un else int un))))"

fun natDigits :: "nat \<Rightarrow> string" where
  "natDigits n =
     (if n < 10 then [char_of (48 + n)]
      else natDigits (n div 10) @ [char_of (48 + n mod 10)])"

definition Itoa :: "int \<Rightarrow> string" where
  "Itoa i = (if i < 0 then CHR ''-'' # natDigits (nat (- i)) else natDigits (nat i))"

section \<open>The remote client (pkg/clients/projects)\<close>

record Response =
  StatusCode :: int

text \<open>Modelled from the spec: \<open>clients.IsResponseNotFound\<close> is not among the sources. The
  spec speaks of a "not found" response; that is a response, when there is one, whose HTTP
  status is 404.\<close>

definition IsResponseNotFound :: "Response option \<Rightarrow> bool" where
  "IsResponseNotFound res = (case res of None \<Rightarrow> False | Some r \<Rightarrow> StatusCode r = 404)"

record CreateProjectAccessTokenOptions =
  opt_Name :: "string option"
  opt_Scopes :: "string list option"
  opt_AccessLevel :: "int option"
  opt_ExpiresAt :: "Time option"

record RotateProjectAccessTokenOptions =
  rot_ExpiresAt :: "Time option"

definition GenerateCreateProjectAccessTokenOptions ::
  "string \<Rightarrow> AccessTokenParameters \<Rightarrow> CreateProjectAccessTokenOptions" where
  "GenerateCreateProjectAccessTokenOptions name p =
     \<lparr>opt_Name = Some name,
      opt_Scopes = Some (p_Scopes p),
      opt_AccessLevel = p_AccessLevel p,
      opt_ExpiresAt = p_ExpiresAt p\<rparr>"

text \<open>\<open>AccessTokenClient\<close>: what each remote operation answers. A Go call returns the
  record, the response and the error, each of which may be nil.\<close>

record AccessTokenClient =
  GetProjectAccessToken ::
    "string \<Rightarrow> int \<Rightarrow> ProjectAccessToken option \<times> Response option \<times> error option"
  CreateProjectAccessToken ::
    "string \<Rightarrow> CreateProjectAccessTokenOptions
       \<Rightarrow> ProjectAccessToken option \<times> Response option \<times> error option"
  RevokeProjectAccessToken ::
    "string \<Rightarrow> int \<Rightarrow> Response option \<times> error option"
  RotateProjectAccessToken ::
    "string \<Rightarrow> int \<Rightarrow> RotateProjectAccessTokenOptions
       \<Rightarrow> ProjectAccessToken option \<times> Response option \<times> error option"

text \<open>The remote calls an operation has made, in order.\<close>

datatype RemoteCall =
    GetCall string int
  | CreateCall string CreateProjectAccessTokenOptions
  | RevokeCall string int
  | RotateCall string int RotateProjectAccessTokenOptions

section \<open>The controller (pkg/controller/projects/accesstokens)\<close>

definition DefaultAccessTokenRotateThreshold :: Duration where
  "DefaultAccessTokenRotateThreshold = 7 * 24 * Hour"

record ExternalObservation =
  ResourceExists :: bool
  ResourceUpToDate :: bool
  ResourceLateInitialized :: bool
  o_ConnectionDetails :: "string \<rightharpoonup> string"

record ExternalCreation =
  ExternalNameAssigned :: bool
  c_ConnectionDetails :: "string \<rightharpoonup> string"

record ExternalUpdate =
  u_ConnectionDetails :: "string \<rightharpoonup> string"

text \<open>The zero values \<open>managed.ExternalObservation{}\<close>, \<open>managed.ExternalCreation{}\<close> and
  \<open>managed.ExternalUpdate{}\<close>.\<close>

definition noObservation :: ExternalObservation where
  "noObservation =
     \<lparr>ResourceExists = False, ResourceUpToDate = False, ResourceLateInitialized = False,
      o_ConnectionDetails = Map.empty\<rparr>"

definition noCreation :: ExternalCreation where
  "noCreation = \<lparr>ExternalNameAssigned = False, c_ConnectionDetails = Map.empty\<rparr>"

definition noUpdate :: ExternalUpdate where
  "noUpdate = \<lparr>u_ConnectionDetails = Map.empty\<rparr>"

text \<open>An operation returns its value and error, or panics; it leaves the resource, which it
  mutates through a pointer, and the remote calls it has made.\<close>

datatype Panic = NilPointerDereference

datatype 'r Outcome = Returned 'r "error option" | Panicked Panic

record 'r Run =
  outcome :: "'r Outcome"
  resource :: Managed
  remoteCalls :: "RemoteCall list"

text \<open>\<open>lateInitializeProjectAccessToken\<close>; the pointer \<open>accessToken\<close> may be nil.\<close>

definition lateInitializeProjectAccessToken ::
  "AccessTokenParameters \<Rightarrow> ProjectAccessToken option \<Rightarrow> AccessTokenParameters" where
  "lateInitializeProjectAccessToken p accessToken =
     (case accessToken of
        None \<Rightarrow> p
      | Some tok \<Rightarrow>
          (let p1 = (if p_AccessLevel p = None
                     then p\<lparr>p_AccessLevel := Some (tok_AccessLevel tok)\<rparr> else p)
           in if p_ExpiresAt p1 = None \<and> tok_ExpiresAt tok \<noteq> None
              then p1\<lparr>p_ExpiresAt := tok_ExpiresAt tok\<rparr> else p1))"

text \<open>Modelled from the spec: the generated \<open>DeepCopy\<close> is not among the sources. The spec
  calls it a structural copy of the desired state; a copy of a value is the value.\<close>

definition DeepCopy :: "AccessTokenParameters \<Rightarrow> AccessTokenParameters" where
  "DeepCopy p = p"

text \<open>\<open>cmp.Equal\<close> on two parameter structs: deep equality, field by field.\<close>

definition cmp_Equal :: "AccessTokenParameters \<Rightarrow> AccessTokenParameters \<Rightarrow> bool" where
  "cmp_Equal a b = (a = b)"

text \<open>\<open>Observe\<close>. The clock is read once, inside \<open>ExpiresWithin\<close>. A nil record with a nil
  error makes \<open>CopyFromToken\<close> dereference nil before it has assigned anything.\<close>

definition Observe ::
  "AccessTokenClient \<Rightarrow> Time \<Rightarrow> Managed \<Rightarrow> ExternalObservation Run" where
  "Observe e now mg =
     (case mg of
        OtherResource \<Rightarrow>
          \<lparr>outcome = Returned noObservation (Some (errors_New errNotAccessToken)),
           resource = mg, remoteCalls = []\<rparr>
      | AccessTokenResource cr \<Rightarrow>
          (let externalName = GetExternalName cr in
           if externalName = [] then
             \<lparr>outcome = Returned noObservation None, resource = mg, remoteCalls = []\<rparr>
           else
             (case Atoi externalName of
                Inl err \<Rightarrow>
                  \<lparr>outcome = Returned noObservation (errors_Wrap (Some err) errFailedParseID),
                   resource = mg, remoteCalls = []\<rparr>
              | Inr accessTokenID \<Rightarrow>
                  (case p_ProjectID (Spec_ForProvider cr) of
                     None \<Rightarrow>
                       \<lparr>outcome = Returned noObservation (Some (errors_New errMissingProjectID)),
                        resource = mg, remoteCalls = []\<rparr>
                   | Some pid \<Rightarrow>
                       (case GetProjectAccessToken e pid accessTokenID of
                          (at, res, err) \<Rightarrow>
                            (case err of
                               Some er \<Rightarrow>
                                 if IsResponseNotFound res then
                                   \<lparr>outcome = Returned noObservation None,
                                    resource = mg, remoteCalls = [GetCall pid accessTokenID]\<rparr>
                                 else
                                   \<lparr>outcome = Returned noObservation
                                      (errors_Wrap (Some er) errAccessTokentNotFound),
                                    resource = mg, remoteCalls = [GetCall pid accessTokenID]\<rparr>
                             | None \<Rightarrow>
                                 (case at of
                                    None \<Rightarrow>
                                      \<lparr>outcome = Panicked NilPointerDereference,
                                       resource = mg,
                                       remoteCalls = [GetCall pid accessTokenID]\<rparr>
                                  | Some tok \<Rightarrow>
                                      (let cr1 = cr\<lparr>Status_AtProvider :=
                                             CopyFromToken (Status_AtProvider cr) tok\<rparr>;
                                           current = DeepCopy (Spec_ForProvider cr1);
                                           cr2 = cr1\<lparr>Spec_ForProvider :=
                                             lateInitializeProjectAccessToken
                                               (Spec_ForProvider cr1) at\<rparr>;
                                           cr3 = cr2\<lparr>Status_Conditions :=
                                             SetConditions (Status_Conditions cr2) Available\<rparr>;
                                           threshold =
                                             (case p_RotateThreshold current of
                                                None \<Rightarrow> DefaultAccessTokenRotateThreshold
                                              | Some rt \<Rightarrow> Duration_Abs rt)
                                       in \<lparr>outcome = Returned
                                             \<lparr>ResourceExists = True,
                                              ResourceUpToDate =
                                                (\<not> IsRevoked (Status_AtProvider cr3)
                                                 \<and> \<not> ExpiresWithin (Status_AtProvider cr3)
                                                      threshold now),
                                              ResourceLateInitialized =
                                                (\<not> cmp_Equal current (Spec_ForProvider cr3)),
                                              o_ConnectionDetails = Map.empty\<rparr> None,
                                           resource = AccessTokenResource cr3,
                                           remoteCalls = [GetCall pid accessTokenID]\<rparr>))))))))"

text \<open>\<open>Create\<close>. The name sent is the object's name.\<close>

definition Create ::
  "AccessTokenClient \<Rightarrow> Managed \<Rightarrow> ExternalCreation Run" where
  "Create e mg =
     (case mg of
        OtherResource \<Rightarrow>
          \<lparr>outcome = Returned noCreation (Some (errors_New errNotAccessToken)),
           resource = mg, remoteCalls = []\<rparr>
      | AccessTokenResource cr \<Rightarrow>
          (case p_ProjectID (Spec_ForProvider cr) of
             None \<Rightarrow>
               \<lparr>outcome = Returned noCreation (Some (errors_New errMissingProjectID)),
                resource = mg, remoteCalls = []\<rparr>
           | Some pid \<Rightarrow>
               (let opt = GenerateCreateProjectAccessTokenOptions
                            (ObjectMeta_Name cr) (Spec_ForProvider cr)
                in case CreateProjectAccessToken e pid opt of
                     (at, res, err) \<Rightarrow>
                       (case err of
                          Some er \<Rightarrow>
                            \<lparr>outcome = Returned noCreation (errors_Wrap (Some er) errCreateFailed),
                             resource = mg, remoteCalls = [CreateCall pid opt]\<rparr>
                        | None \<Rightarrow>
                            (case at of
                               None \<Rightarrow>
                                 \<lparr>outcome = Panicked NilPointerDereference,
                                  resource = mg, remoteCalls = [CreateCall pid opt]\<rparr>
                             | Some tok \<Rightarrow>
                                 (let cr1 = cr\<lparr>Status_AtProvider :=
                                                CopyFromToken (Status_AtProvider cr) tok\<rparr>;
                                      cr2 = SetExternalName cr1 (Itoa (tok_ID tok))
                                  in \<lparr>outcome = Returned
                                        \<lparr>ExternalNameAssigned = True,
                                         c_ConnectionDetails = [''token'' \<mapsto> tok_Token tok]\<rparr>
                                        None,
                                      resource = AccessTokenResource cr2,
                                      remoteCalls = [CreateCall pid opt]\<rparr>))))))"

text \<open>The time to live and the expiration that \<open>Update\<close> asks for (its lines 195 to 199).\<close>

definition rotationTTL :: "AccessTokenObservation \<Rightarrow> AccessTokenParameters \<Rightarrow> Duration" where
  "rotationTTL at p =
     (let ttl = TotalDuration at
      in case p_RotateThreshold p of
           None \<Rightarrow> ttl
         | Some rt \<Rightarrow> Duration_max ttl (rt * 2))"

definition rotationExpiresAt ::
  "AccessTokenObservation \<Rightarrow> AccessTokenParameters \<Rightarrow> Time \<Rightarrow> Time" where
  "rotationExpiresAt at p now =
     Time_Truncate (Time_Add now (rotationTTL at p)) (24 * Hour)"

text \<open>\<open>Update\<close>. The first argument of the remote call dereferences \<open>ProjectID\<close>; Go evaluates
  the arguments before it calls.\<close>

definition Update ::
  "AccessTokenClient \<Rightarrow> Time \<Rightarrow> Managed \<Rightarrow> ExternalUpdate Run" where
  "Update e now mg =
     (case mg of
        OtherResource \<Rightarrow>
          \<lparr>outcome = Returned noUpdate (Some (errors_New errNotAccessToken)),
           resource = mg, remoteCalls = []\<rparr>
      | AccessTokenResource cr \<Rightarrow>
          (let externalName = GetExternalName cr in
           if externalName = [] then
             \<lparr>outcome = Returned noUpdate (Some (errors_New errNotAccessToken)),
              resource = mg, remoteCalls = []\<rparr>
           else
             (case Atoi externalName of
                Inl err \<Rightarrow>
                  \<lparr>outcome = Returned noUpdate (errors_Wrap (Some err) errFailedParseID),
                   resource = mg, remoteCalls = []\<rparr>
              | Inr accessTokenID \<Rightarrow>
                  (let expiresAt = rotationExpiresAt (Status_AtProvider cr) (Spec_ForProvider cr) now
                   in case p_ProjectID (Spec_ForProvider cr) of
                        None \<Rightarrow>
                          \<lparr>outcome = Panicked NilPointerDereference,
                           resource = mg, remoteCalls = []\<rparr>
                      | Some pid \<Rightarrow>
                          (let opt = \<lparr>rot_ExpiresAt = Some expiresAt\<rparr>
                           in case RotateProjectAccessToken e pid accessTokenID opt of
                                (at, res, err) \<Rightarrow>
                                  (case err of
                                     Some er \<Rightarrow>
                                       \<lparr>outcome = Returned noUpdate
                                          (errors_Wrap (Some er) errRotationFailed),
                                        resource = mg,
                                        remoteCalls = [RotateCall pid accessTokenID opt]\<rparr>
                                   | None \<Rightarrow>
                                       (case at of
                                          None \<Rightarrow>
                                            \<lparr>outcome = Panicked NilPointerDereference,
                                             resource = mg,
                                             remoteCalls = [RotateCall pid accessTokenID opt]\<rparr>
                                        | Some tok \<Rightarrow>
                                            (let cr1 = cr\<lparr>Status_AtProvider :=
                                                   CopyFromToken (Status_AtProvider cr) tok\<rparr>;
                                                 cr2 = SetExternalName cr1 (Itoa (tok_ID tok))
                                             in \<lparr>outcome = Returned
                                                   \<lparr>u_ConnectionDetails =
                                                      [''token'' \<mapsto> tok_Token tok]\<rparr> None,
                                                 resource = AccessTokenResource cr2,
                                                 remoteCalls =
                                                   [RotateCall pid accessTokenID opt]\<rparr>))))))))"

text \<open>\<open>Delete\<close> returns an error only.\<close>

definition Delete ::
  "AccessTokenClient \<Rightarrow> Managed \<Rightarrow> unit Run" where
  "Delete e mg =
     (case mg of
        OtherResource \<Rightarrow>
          \<lparr>outcome = Returned () (Some (errors_New errNotAccessToken)),
           resource = mg, remoteCalls = []\<rparr>
      | AccessTokenResource cr \<Rightarrow>
          (case Atoi (GetExternalName cr) of
             Inl err \<Rightarrow>
               \<lparr>outcome = Returned () (Some (errors_New errExternalNameNotInt)),
                resource = mg, remoteCalls = []\<rparr>
           | Inr accessTokenID \<Rightarrow>
               (case p_ProjectID (Spec_ForProvider cr) of
                  None \<Rightarrow>
                    \<lparr>outcome = Returned () (Some (errors_New errMissingProjectID)),
                     resource = mg, remoteCalls = []\<rparr>
                | Some pid \<Rightarrow>
                    (case RevokeProjectAccessToken e pid accessTokenID of
                       (res, err) \<Rightarrow>
                         \<lparr>outcome = Returned () (errors_Wrap err errDeleteFailed),
                          resource = mg, remoteCalls = [RevokeCall pid accessTokenID]\<rparr>))))"

section \<open>Example inputs\<close>

text \<open>Midnight of 2024-01-01 and of 2024-01-03 in UTC, and 15:30 of 2024-01-01, in
  nanoseconds since the zero time.\<close>

definition exampleCreated :: Time where
  "exampleCreated = 63839664000000000000"

definition exampleExpires :: Time where
  "exampleExpires = 63839836800000000000"

definition exampleNow :: Time where
  "exampleNow = 63839719800000000000"

definition unobserved :: AccessTokenObservation where
  "unobserved =
     \<lparr>at_TokenID = None, at_ExpiresAt = None, at_CreatedAt = None,
      at_Name = None, at_Revoked = None, at_Active = None\<rparr>"

definition exampleObserved :: AccessTokenObservation where
  "exampleObserved =
     \<lparr>at_TokenID = Some 42, at_ExpiresAt = Some exampleExpires,
      at_CreatedAt = Some exampleCreated, at_Name = Some ''ci'',
      at_Revoked = Some False, at_Active = Some True\<rparr>"

definition exampleToken :: ProjectAccessToken where
  "exampleToken =
     \<lparr>tok_ID = 42, tok_Name = ''ci'', tok_CreatedAt = Some exampleCreated,
      tok_ExpiresAt = Some exampleExpires, tok_Active = True, tok_Revoked = False,
      tok_Token = ''glpat-example'', tok_AccessLevel = 40\<rparr>"

definition exampleParameters :: AccessTokenParameters where
  "exampleParameters =
     \<lparr>p_ProjectID = Some ''1234'', p_ProjectIDRef = None, p_ProjectIDSelector = None,
      p_ExpiresAt = None, p_RotateThreshold = Some (30 * Hour), p_AccessLevel = None,
      p_Scopes = [''read_repository''], p_Name = ''ci''\<rparr>"

definition exampleResource :: AccessToken where
  "exampleResource =
     \<lparr>ObjectMeta_Name = ''ci-token'',
      ObjectMeta_Annotations = [AnnotationKeyExternalName \<mapsto> ''42''],
      Spec_ForProvider = exampleParameters,
      Status_Conditions = [],
      Status_AtProvider = exampleObserved\<rparr>"

text \<open>A client that gives the same answer to every call.\<close>

definition stubClient ::
  "ProjectAccessToken option \<Rightarrow> Response option \<Rightarrow> error option \<Rightarrow> AccessTokenClient" where
  "stubClient at res err =
     \<lparr>GetProjectAccessToken = (\<lambda>pid n. (at, res, err)),
      CreateProjectAccessToken = (\<lambda>pid opt. (at, res, err)),
      RevokeProjectAccessToken = (\<lambda>pid n. (res, err)),
      RotateProjectAccessToken = (\<lambda>pid n opt. (at, res, err))\<rparr>"

definition exampleTokenNoExpiry :: ProjectAccessToken where
  "exampleTokenNoExpiry = exampleToken\<lparr>tok_ExpiresAt := None\<rparr>"

definition exampleUnbound :: AccessToken where
  "exampleUnbound = exampleResource\<lparr>ObjectMeta_Annotations := Map.empty\<rparr>"

definition exampleNoProject :: AccessToken where
  "exampleNoProject =
     exampleResource\<lparr>Spec_ForProvider := exampleParameters\<lparr>p_ProjectID := None\<rparr>\<rparr>"

definition exampleBadName :: AccessToken where
  "exampleBadName =
     exampleResource\<lparr>ObjectMeta_Annotations := [AnnotationKeyExternalName \<mapsto> ''abc'']\<rparr>"

definition exampleSetParameters :: AccessTokenParameters where
  "exampleSetParameters =
     exampleParameters\<lparr>p_AccessLevel := Some 30, p_ExpiresAt := Some exampleNow\<rparr>"

text \<open>Clients: one that answers 404, one that fails otherwise, one that answers with the
  example record, and one whose record has no expiration.\<close>

definition notFoundClient :: AccessTokenClient where
  "notFoundClient =
     stubClient None (Some \<lparr>StatusCode = 404\<rparr>) (Some (ClientError ''404 Not Found''))"

definition failingClient :: AccessTokenClient where
  "failingClient =
     stubClient None (Some \<lparr>StatusCode = 500\<rparr>)
       (Some (ClientError ''500 Internal Server Error''))"

definition answeringClient :: AccessTokenClient where
  "answeringClient = stubClient (Some exampleToken) None None"

definition noExpiryClient :: AccessTokenClient where
  "noExpiryClient = stubClient (Some exampleTokenNoExpiry) None None"



definition exampleFarExpires :: Time where
  "exampleFarExpires = exampleNow + 9223372036854775807"



definition exampleObservedFar :: AccessTokenObservation where
  "exampleObservedFar = exampleObserved\<lparr>at_ExpiresAt := Some exampleFarExpires\<rparr>"


text \<open>The observed state of a resource.\<close>

definition AtProviderOf :: "Managed \<Rightarrow> AccessTokenObservation option" where
  "AtProviderOf mg =
     (case mg of AccessTokenResource cr \<Rightarrow> Some (Status_AtProvider cr) | OtherResource \<Rightarrow> None)"

section \<open>Durations as integers\<close>

lemma sint_minDuration: "sint minDuration = - 9223372036854775808"
  by (simp add: minDuration_def)

lemma sint_maxDuration: "sint maxDuration = 9223372036854775807"
  by (simp add: maxDuration_def)

lemma sint_Hour: "sint Hour = 3600000000000"
  by (simp add: Hour_def)

lemma sint_Duration_bounds:
  "- 9223372036854775808 \<le> sint (d :: Duration)" "sint (d :: Duration) < 9223372036854775808"
  using sint_ge [of d] sint_lt [of d] by simp_all

lemma sint_Duration_neg:
  assumes "sint (d :: Duration) \<noteq> - 9223372036854775808"
  shows "sint (- d) = - sint d"
proof -
  have "- 9223372036854775808 \<le> - sint d" "- sint d < 9223372036854775808"
    using sint_Duration_bounds [of d] assms by simp_all
  then have "signed_take_bit 63 (- sint d) = - sint d"
    by (intro signed_take_bit_int_eq_self) simp_all
  then show ?thesis by (simp add: sint_word_minus)
qed

lemma sint_Duration_twice:
  assumes "- 4611686018427387904 \<le> sint (d :: Duration)" "sint d < 4611686018427387904"
  shows "sint (d * 2) = 2 * sint d"
proof -
  have "signed_take_bit 63 (sint d * 2) = sint d * 2"
    using assms by (intro signed_take_bit_int_eq_self) simp_all
  then show ?thesis by (simp add: sint_word_mult)
qed

lemma sint_Duration_of_int:
  assumes "- 9223372036854775808 \<le> k" "k < 9223372036854775808"
  shows "sint (word_of_int k :: Duration) = k"
proof -
  have "signed_take_bit 63 k = k"
    using assms by (intro signed_take_bit_int_eq_self) simp_all
  then show ?thesis by (simp add: sint_sbintrunc')
qed

lemma sint_Duration_Abs:
  "sint (Duration_Abs d) = (if d = minDuration then 9223372036854775807 else \<bar>sint d\<bar>)"
proof (cases "0 \<le> sint d")
  case True
  then have "d \<noteq> minDuration" by (auto simp: sint_minDuration)
  with True show ?thesis by (simp add: Duration_Abs_def)
next
  case False
  show ?thesis
  proof (cases "d = minDuration")
    case True
    then show ?thesis by (simp add: Duration_Abs_def sint_minDuration sint_maxDuration)
  next
    case ne: False
    have "sint d \<noteq> - 9223372036854775808"
    proof
      assume "sint d = - 9223372036854775808"
      then have "sint d = sint minDuration" by (simp add: sint_minDuration)
      then have "d = minDuration" by (rule signed_word_eqI)
      then show False using ne by simp
    qed
    then have "sint (- d) = - sint d" by (rule sint_Duration_neg)
    with False ne show ?thesis by (simp add: Duration_Abs_def)
  qed
qed

lemma Duration_Abs_nonneg: "0 \<le> sint (Duration_Abs d)"
  by (simp add: sint_Duration_Abs)

lemma sint_neg_Duration_Abs: "sint (- Duration_Abs d) = - sint (Duration_Abs d)"
  using Duration_Abs_nonneg [of d] by (intro sint_Duration_neg) simp

lemma sint_Time_Sub:
  assumes "- 9223372036854775808 \<le> t - u" and "t - u \<le> 9223372036854775807"
  shows "sint (Time_Sub t u) = t - u"
proof -
  have "sint (word_of_int (t - u) :: Duration) = t - u"
    using assms by (intro sint_Duration_of_int) simp_all
  moreover have "Time_Sub t u = word_of_int (t - u)"
    using assms unfolding Time_Sub_def by (simp del: of_int_diff)
  ultimately show ?thesis by (simp del: of_int_diff)
qed

text \<open>\<open>TotalDuration\<close> is the default of 365 days when an instant is unset, and the
  distance between the two instants when that fits a duration.\<close>

lemma TotalDuration_unset:
  "at_ExpiresAt at = None \<or> at_CreatedAt at = None \<Longrightarrow>
     sint (TotalDuration at) = 365 * 24 * 3600000000000"
  by (auto simp add: TotalDuration_def DefaultAccessTokenMaxDuration_def Hour_def
      split: option.splits)

lemma TotalDuration_set:
  assumes "at_ExpiresAt at = Some x" and "at_CreatedAt at = Some c"
    and "- 9223372036854775808 \<le> x - c" and "x - c \<le> 9223372036854775807"
  shows "sint (TotalDuration at) = x - c"
  using assms by (simp add: TotalDuration_def sint_Time_Sub)

section \<open>The examples evaluated\<close>

lemma Atoi_42: "Atoi ''42'' = Inr 42"
  by (simp add: Atoi_def isDigit_def)

lemma Atoi_abc: "Atoi ''abc'' = Inl (NumError ''abc'' ErrSyntax)"
  by (simp add: Atoi_def isDigit_def)

lemma GetExternalName_example: "GetExternalName exampleResource = ''42''"
  by (simp add: GetExternalName_def exampleResource_def)

lemma example_premises:
  "GetExternalName exampleResource \<noteq> []"
  "Atoi (GetExternalName exampleResource) = Inr 42"
  "p_ProjectID (Spec_ForProvider exampleResource) = Some ''1234''"
  by (simp_all add: GetExternalName_example Atoi_42)
    (simp add: exampleResource_def exampleParameters_def)

lemma TotalDuration_example: "sint (TotalDuration exampleObserved) = 172800000000000"
  by (simp add: TotalDuration_def exampleObserved_def Time_Sub_def exampleExpires_def
      exampleCreated_def)

section \<open>The observation model\<close>

lemma ExpiresWithin_int:
  "ExpiresWithin at d now =
     (case at_ExpiresAt at of None \<Rightarrow> False | Some e \<Rightarrow> e - sint (Duration_Abs d) < now)"
  by (simp add: ExpiresWithin_def Time_Before_def Time_Add_def sint_neg_Duration_Abs
      split: option.splits)

text \<open>
  Claim C9, as stated: for every duration \<open>d\<close>, when \<open>ExpiresAt\<close> is set \<open>ExpiresWithin d\<close> is
  true exactly when \<open>ExpiresAt\<close> minus the absolute value of \<open>d\<close> is strictly before the
  current time. The least duration has no absolute value among the durations, and
  \<open>Duration.Abs\<close> gives it the greatest one, a nanosecond less: for a token that expires
  \<open>2^63 - 1\<close> nanoseconds from now, \<open>ExpiresWithin\<close> of the least duration is false, though the
  expiration minus the absolute value is before now.
\<close>

theorem ExpiresWithin_least_duration:
  "at_ExpiresAt exampleObservedFar = Some exampleFarExpires
   \<and> \<not> ExpiresWithin exampleObservedFar minDuration exampleNow
   \<and> exampleFarExpires - \<bar>sint minDuration\<bar> < exampleNow"
  by (simp add: ExpiresWithin_int sint_Duration_Abs exampleObservedFar_def
      exampleFarExpires_def sint_minDuration)

text \<open>
  Claim C9, amended. For every duration \<open>d\<close>, \<open>ExpiresWithin d\<close> is false when \<open>ExpiresAt\<close> is
  unset. Otherwise, for every \<open>d\<close> but the least duration, it is true exactly when
  \<open>ExpiresAt\<close> minus the absolute value of \<open>d\<close> is strictly before the current time; for the
  least duration (\<open>-2^63\<close> nanoseconds) it is true exactly when \<open>ExpiresAt\<close> minus the greatest
  duration (\<open>2^63 - 1\<close> nanoseconds) is strictly before the current time. For a token that
  expires in exactly 7 days, \<open>ExpiresWithin\<close> is false at 48 hours and true at 8 days.
\<close>

theorem ExpiresWithin_spec:
  "(at_ExpiresAt at = None \<longrightarrow> \<not> ExpiresWithin at d now)
   \<and> (\<forall>e. at_ExpiresAt at = Some e \<longrightarrow> d \<noteq> minDuration \<longrightarrow>
          ExpiresWithin at d now = (e - \<bar>sint d\<bar> < now))
   \<and> (\<forall>e. at_ExpiresAt at = Some e \<longrightarrow> d = minDuration \<longrightarrow>
          ExpiresWithin at d now = (e - 9223372036854775807 < now))
   \<and> (at_ExpiresAt at = Some (Time_Add now (7 * 24 * Hour)) \<longrightarrow>
          \<not> ExpiresWithin at (48 * Hour) now \<and> ExpiresWithin at (8 * 24 * Hour) now)"
proof -
  have unset: "at_ExpiresAt at = None \<longrightarrow> \<not> ExpiresWithin at d now"
    by (simp add: ExpiresWithin_int)
  have abs: "\<forall>e. at_ExpiresAt at = Some e \<longrightarrow> d \<noteq> minDuration \<longrightarrow>
          ExpiresWithin at d now = (e - \<bar>sint d\<bar> < now)"
    by (simp add: ExpiresWithin_int sint_Duration_Abs)
  have least: "\<forall>e. at_ExpiresAt at = Some e \<longrightarrow> d = minDuration \<longrightarrow>
          ExpiresWithin at d now = (e - 9223372036854775807 < now)"
    by (simp add: ExpiresWithin_int sint_Duration_Abs)
  have ne: "48 * Hour \<noteq> minDuration" "8 * 24 * Hour \<noteq> minDuration"
    by (simp_all add: Hour_def minDuration_def)
  have week: "at_ExpiresAt at = Some (Time_Add now (7 * 24 * Hour)) \<longrightarrow>
          \<not> ExpiresWithin at (48 * Hour) now \<and> ExpiresWithin at (8 * 24 * Hour) now"
    using ne by (simp add: ExpiresWithin_int sint_Duration_Abs Time_Add_def Hour_def)
  from unset abs least week show ?thesis by blast
qed

theorem ExpiresWithin_spec_witness:
  "at_ExpiresAt unobserved = None
   \<and> \<not> ExpiresWithin unobserved (48 * Hour) exampleNow
   \<and> - (48 * Hour) \<noteq> minDuration
   \<and> at_ExpiresAt (exampleObserved\<lparr>at_ExpiresAt := Some (Time_Add exampleNow (7 * 24 * Hour))\<rparr>) =
       Some (Time_Add exampleNow (7 * 24 * Hour))
   \<and> ExpiresWithin
         (exampleObserved\<lparr>at_ExpiresAt := Some (Time_Add exampleNow (7 * 24 * Hour))\<rparr>)
         (- (48 * Hour)) exampleNow =
       (Time_Add exampleNow (7 * 24 * Hour) - \<bar>sint (- (48 * Hour))\<bar> < exampleNow)
   \<and> \<not> ExpiresWithin
         (exampleObserved\<lparr>at_ExpiresAt := Some (Time_Add exampleNow (7 * 24 * Hour))\<rparr>)
         (48 * Hour) exampleNow
   \<and> ExpiresWithin
         (exampleObserved\<lparr>at_ExpiresAt := Some (Time_Add exampleNow (7 * 24 * Hour))\<rparr>)
         (8 * 24 * Hour) exampleNow
   \<and> at_ExpiresAt exampleObservedFar = Some exampleFarExpires
   \<and> ExpiresWithin exampleObservedFar minDuration exampleNow =
       (exampleFarExpires - 9223372036854775807 < exampleNow)"
proof -
  have n: "at_ExpiresAt unobserved = None"
    by (simp add: unobserved_def)
  have m: "- (48 * Hour) \<noteq> minDuration"
    by (simp add: Hour_def minDuration_def)
  have s: "at_ExpiresAt
      (exampleObserved\<lparr>at_ExpiresAt := Some (Time_Add exampleNow (7 * 24 * Hour))\<rparr>) =
       Some (Time_Add exampleNow (7 * 24 * Hour))"
    by simp
  have f: "at_ExpiresAt exampleObservedFar = Some exampleFarExpires"
    by (simp add: exampleObservedFar_def)
  show ?thesis
    using n m s f
      ExpiresWithin_spec [of unobserved "48 * Hour" exampleNow]
      ExpiresWithin_spec
        [of "exampleObserved\<lparr>at_ExpiresAt := Some (Time_Add exampleNow (7 * 24 * Hour))\<rparr>"
          "- (48 * Hour)" exampleNow]
      ExpiresWithin_spec [of exampleObservedFar minDuration exampleNow]
    by blast
qed

section \<open>Observe\<close>

text \<open>What \<open>Observe\<close> does when the identity binding parses, the project is set and the
  fetch answers with a record and no error.\<close>

lemma Observe_success:
  assumes "GetExternalName cr \<noteq> []"
    and "Atoi (GetExternalName cr) = Inr n"
    and "p_ProjectID (Spec_ForProvider cr) = Some pid"
    and "GetProjectAccessToken e pid n = (Some tok, res, None)"
  shows "Observe e now (AccessTokenResource cr) =
     \<lparr>outcome = Returned
        \<lparr>ResourceExists = True,
         ResourceUpToDate =
           (\<not> IsRevoked (CopyFromToken (Status_AtProvider cr) tok)
            \<and> \<not> ExpiresWithin (CopyFromToken (Status_AtProvider cr) tok)
                 (case p_RotateThreshold (Spec_ForProvider cr) of
                    None \<Rightarrow> DefaultAccessTokenRotateThreshold
                  | Some rt \<Rightarrow> Duration_Abs rt) now),
         ResourceLateInitialized =
           (lateInitializeProjectAccessToken (Spec_ForProvider cr) (Some tok)
              \<noteq> Spec_ForProvider cr),
         o_ConnectionDetails = Map.empty\<rparr> None,
      resource = AccessTokenResource
        (cr\<lparr>Status_AtProvider := CopyFromToken (Status_AtProvider cr) tok,
            Spec_ForProvider := lateInitializeProjectAccessToken (Spec_ForProvider cr) (Some tok),
            Status_Conditions := SetConditions (Status_Conditions cr) Available\<rparr>),
      remoteCalls = [GetCall pid n]\<rparr>"
  using assms by (auto simp add: Observe_def Let_def DeepCopy_def cmp_Equal_def)

lemma answeringClient_Get:
  "GetProjectAccessToken answeringClient pid n = (Some exampleToken, None, None)"
  by (simp add: answeringClient_def stubClient_def)









text \<open>
  Claim C2. After a successful \<open>Observe\<close> the observed state would be a function of the
  fetched record alone. The code keeps the previous \<open>ExpiresAt\<close> when the fetched record has
  none: with the same record fetched, a resource that was observed with an expiration keeps
  it, and a resource never observed has none.
\<close>

theorem Observe_keeps_previous_ExpiresAt:
  "AtProviderOf (resource (Observe noExpiryClient exampleNow
       (AccessTokenResource exampleResource))) =
     Some (exampleObserved\<lparr>at_ExpiresAt := Some exampleExpires\<rparr>)
   \<and> AtProviderOf (resource (Observe noExpiryClient exampleNow
       (AccessTokenResource (exampleResource\<lparr>Status_AtProvider := unobserved\<rparr>)))) =
     Some (exampleObserved\<lparr>at_ExpiresAt := None\<rparr>)
   \<and> exampleObserved\<lparr>at_ExpiresAt := Some exampleExpires\<rparr> \<noteq>
       exampleObserved\<lparr>at_ExpiresAt := None\<rparr>"
proof -
  have g: "GetProjectAccessToken noExpiryClient ''1234'' 42 =
      (Some exampleTokenNoExpiry, None, None)"
    by (simp add: noExpiryClient_def stubClient_def)
  have n: "GetExternalName (exampleResource\<lparr>Status_AtProvider := unobserved\<rparr>) \<noteq> []"
    "Atoi (GetExternalName (exampleResource\<lparr>Status_AtProvider := unobserved\<rparr>)) = Inr 42"
    "p_ProjectID (Spec_ForProvider (exampleResource\<lparr>Status_AtProvider := unobserved\<rparr>)) =
       Some ''1234''"
    using example_premises by (simp_all add: GetExternalName_def)
  have a: "CopyFromToken exampleObserved exampleTokenNoExpiry =
      exampleObserved\<lparr>at_ExpiresAt := Some exampleExpires\<rparr>"
    by (simp add: CopyFromToken_def Let_def exampleTokenNoExpiry_def exampleToken_def
        exampleObserved_def)
  have b: "CopyFromToken unobserved exampleTokenNoExpiry =
      exampleObserved\<lparr>at_ExpiresAt := None\<rparr>"
    by (simp add: CopyFromToken_def Let_def exampleTokenNoExpiry_def exampleToken_def
        exampleObserved_def unobserved_def)
  have d: "exampleObserved\<lparr>at_ExpiresAt := Some exampleExpires\<rparr> \<noteq>
       exampleObserved\<lparr>at_ExpiresAt := None\<rparr>"
    by (simp add: exampleObserved_def)
  show ?thesis
    unfolding Observe_success [OF example_premises g] Observe_success [OF n g]
    using d by (simp add: AtProviderOf_def exampleResource_def a b)
qed

text \<open>When the fetched record has both instants, the refreshed observed state does not
  depend on the previous one.\<close>

lemma CopyFromToken_complete:
  assumes "tok_CreatedAt tok = Some c" and "tok_ExpiresAt tok = Some x"
  shows "CopyFromToken at tok = CopyFromToken at' tok"
  using assms by (simp add: CopyFromToken_def Let_def)

text \<open>
  Claim C7. On a resource with no identity binding (an empty external name), \<open>Observe\<close>
  reports that the resource does not exist, with no error and no remote call. When the
  fetch fails with a "not found" response, \<open>Observe\<close> reports the same, with no error.
\<close>

theorem Observe_NonExistent:
  "(GetExternalName cr = [] \<longrightarrow>
      Observe e now (AccessTokenResource cr) =
        \<lparr>outcome = Returned noObservation None, resource = AccessTokenResource cr,
         remoteCalls = []\<rparr>)
   \<and> (GetExternalName cr \<noteq> [] \<longrightarrow> Atoi (GetExternalName cr) = Inr n \<longrightarrow>
      p_ProjectID (Spec_ForProvider cr) = Some pid \<longrightarrow>
      GetProjectAccessToken e pid n = (at, res, Some err) \<longrightarrow> IsResponseNotFound res \<longrightarrow>
      Observe e now (AccessTokenResource cr) =
        \<lparr>outcome = Returned noObservation None, resource = AccessTokenResource cr,
         remoteCalls = [GetCall pid n]\<rparr>)
   \<and> \<not> ResourceExists noObservation"
  by (simp add: Observe_def noObservation_def)

theorem Observe_NonExistent_witness:
  "GetExternalName exampleUnbound = []
   \<and> Observe answeringClient exampleNow (AccessTokenResource exampleUnbound) =
        \<lparr>outcome = Returned noObservation None, resource = AccessTokenResource exampleUnbound,
         remoteCalls = []\<rparr>
   \<and> GetExternalName exampleResource \<noteq> []
   \<and> Atoi (GetExternalName exampleResource) = Inr 42
   \<and> p_ProjectID (Spec_ForProvider exampleResource) = Some ''1234''
   \<and> GetProjectAccessToken notFoundClient ''1234'' 42 =
        (None, Some \<lparr>StatusCode = 404\<rparr>, Some (ClientError ''404 Not Found''))
   \<and> IsResponseNotFound (Some \<lparr>StatusCode = 404\<rparr>)
   \<and> Observe notFoundClient exampleNow (AccessTokenResource exampleResource) =
        \<lparr>outcome = Returned noObservation None, resource = AccessTokenResource exampleResource,
         remoteCalls = [GetCall ''1234'' 42]\<rparr>"
proof -
  have u: "GetExternalName exampleUnbound = []"
    by (simp add: GetExternalName_def exampleUnbound_def)
  have g: "GetProjectAccessToken notFoundClient ''1234'' 42 =
        (None, Some \<lparr>StatusCode = 404\<rparr>, Some (ClientError ''404 Not Found''))"
    by (simp add: notFoundClient_def stubClient_def)
  have nf: "IsResponseNotFound (Some \<lparr>StatusCode = 404\<rparr>)"
    by (simp add: IsResponseNotFound_def)
  show ?thesis
    using u g nf example_premises
      Observe_NonExistent [of exampleUnbound answeringClient exampleNow]
      Observe_NonExistent [of exampleResource notFoundClient exampleNow 42 "''1234''" None
        "Some \<lparr>StatusCode = 404\<rparr>" "ClientError ''404 Not Found''"]
    by blast
qed

section \<open>Late initialisation\<close>

text \<open>
  Claim C5. Late initialisation leaves every field the caller has set as it is, also when
  it differs from the observed value; it changes nothing but \<open>AccessLevel\<close> and \<open>ExpiresAt\<close>,
  and those only when unset, filling them from the fetched record. \<open>ProjectID\<close>, its
  reference and selector, \<open>Name\<close>, \<open>Scopes\<close> and \<open>RotateThreshold\<close> are never modified.
\<close>

theorem lateInitialize_frame:
  "p_ProjectID (lateInitializeProjectAccessToken p at) = p_ProjectID p
   \<and> p_ProjectIDRef (lateInitializeProjectAccessToken p at) = p_ProjectIDRef p
   \<and> p_ProjectIDSelector (lateInitializeProjectAccessToken p at) = p_ProjectIDSelector p
   \<and> p_Name (lateInitializeProjectAccessToken p at) = p_Name p
   \<and> p_Scopes (lateInitializeProjectAccessToken p at) = p_Scopes p
   \<and> p_RotateThreshold (lateInitializeProjectAccessToken p at) = p_RotateThreshold p
   \<and> (\<forall>a. p_AccessLevel p = Some a \<longrightarrow>
          p_AccessLevel (lateInitializeProjectAccessToken p at) = Some a)
   \<and> (\<forall>t. p_ExpiresAt p = Some t \<longrightarrow>
          p_ExpiresAt (lateInitializeProjectAccessToken p at) = Some t)
   \<and> (\<forall>tok. at = Some tok \<longrightarrow> p_AccessLevel p = None \<longrightarrow>
          p_AccessLevel (lateInitializeProjectAccessToken p at) = Some (tok_AccessLevel tok))
   \<and> (\<forall>tok. at = Some tok \<longrightarrow> p_ExpiresAt p = None \<longrightarrow>
          p_ExpiresAt (lateInitializeProjectAccessToken p at) = tok_ExpiresAt tok)
   \<and> (at = None \<longrightarrow> lateInitializeProjectAccessToken p at = p)"
  by (cases at) (auto simp add: lateInitializeProjectAccessToken_def Let_def)

theorem lateInitialize_frame_witness:
  "p_AccessLevel exampleSetParameters = Some 30
   \<and> tok_AccessLevel exampleToken = 40
   \<and> p_AccessLevel (lateInitializeProjectAccessToken exampleSetParameters (Some exampleToken)) =
       Some 30
   \<and> p_ExpiresAt exampleSetParameters = Some exampleNow
   \<and> tok_ExpiresAt exampleToken = Some exampleExpires
   \<and> p_ExpiresAt (lateInitializeProjectAccessToken exampleSetParameters (Some exampleToken)) =
       Some exampleNow
   \<and> p_AccessLevel exampleParameters = None
   \<and> p_ExpiresAt exampleParameters = None
   \<and> p_AccessLevel (lateInitializeProjectAccessToken exampleParameters (Some exampleToken)) =
       Some 40
   \<and> p_ExpiresAt (lateInitializeProjectAccessToken exampleParameters (Some exampleToken)) =
       Some exampleExpires
   \<and> lateInitializeProjectAccessToken exampleParameters None = exampleParameters"
proof -
  have s: "p_AccessLevel exampleSetParameters = Some 30"
    "p_ExpiresAt exampleSetParameters = Some exampleNow"
    by (simp_all add: exampleSetParameters_def)
  have u: "p_AccessLevel exampleParameters = None" "p_ExpiresAt exampleParameters = None"
    by (simp_all add: exampleParameters_def)
  have t: "tok_AccessLevel exampleToken = 40" "tok_ExpiresAt exampleToken = Some exampleExpires"
    by (simp_all add: exampleToken_def)
  show ?thesis
    using s u t
      lateInitialize_frame [of exampleSetParameters "Some exampleToken"]
      lateInitialize_frame [of exampleParameters "Some exampleToken"]
      lateInitialize_frame [of exampleParameters None]
    by simp
qed

lemma lateInitialize_twice:
  "lateInitializeProjectAccessToken (lateInitializeProjectAccessToken p at) at =
   lateInitializeProjectAccessToken p at"
  by (cases at) (auto simp add: lateInitializeProjectAccessToken_def Let_def)

lemma lateInitialize_ProjectID:
  "p_ProjectID (lateInitializeProjectAccessToken p at) = p_ProjectID p"
  by (cases at) (auto simp add: lateInitializeProjectAccessToken_def Let_def)

lemma GetExternalName_Observed:
  "GetExternalName
     (cr\<lparr>Status_AtProvider := a, Spec_ForProvider := b, Status_Conditions := c\<rparr>) =
   GetExternalName cr"
  by (simp add: GetExternalName_def)

text \<open>
  Claim C6. Late initialisation is idempotent: applied to its own result, with the same
  record, it changes nothing. So an \<open>Observe\<close> that runs on the resource a first \<open>Observe\<close>
  has left, and fetches the same record, leaves the desired state as it was and reports
  that nothing was late-initialised.
\<close>

theorem lateInitialize_idempotent:
  assumes "GetExternalName cr \<noteq> []"
    and "Atoi (GetExternalName cr) = Inr n"
    and "p_ProjectID (Spec_ForProvider cr) = Some pid"
    and "GetProjectAccessToken e pid n = (Some tok, res, None)"
  shows "lateInitializeProjectAccessToken
           (lateInitializeProjectAccessToken p at) at = lateInitializeProjectAccessToken p at
       \<and> (\<exists>cr'.
            resource (Observe e now (AccessTokenResource cr)) = AccessTokenResource cr'
            \<and> Spec_ForProvider cr' =
                lateInitializeProjectAccessToken (Spec_ForProvider cr) (Some tok)
            \<and> (\<exists>obs cr''.
                  Observe e now' (AccessTokenResource cr') =
                    \<lparr>outcome = Returned obs None, resource = AccessTokenResource cr'',
                     remoteCalls = [GetCall pid n]\<rparr>
                  \<and> \<not> ResourceLateInitialized obs
                  \<and> Spec_ForProvider cr'' = Spec_ForProvider cr'))"
proof -
  let ?p' = "lateInitializeProjectAccessToken (Spec_ForProvider cr) (Some tok)"
  let ?cr' = "cr\<lparr>Status_AtProvider := CopyFromToken (Status_AtProvider cr) tok,
            Spec_ForProvider := ?p',
            Status_Conditions := SetConditions (Status_Conditions cr) Available\<rparr>"
  have first: "resource (Observe e now (AccessTokenResource cr)) = AccessTokenResource ?cr'"
    unfolding Observe_success [OF assms] by simp
  have name: "GetExternalName ?cr' = GetExternalName cr"
    by (rule GetExternalName_Observed)
  have run: "GetExternalName ?cr' \<noteq> []" "Atoi (GetExternalName ?cr') = Inr n"
    using assms(1,2) unfolding name by simp_all
  have pid: "p_ProjectID (Spec_ForProvider ?cr') = Some pid"
    using assms(3) by (simp add: lateInitialize_ProjectID)
  have second: "\<exists>obs cr''.
      Observe e now' (AccessTokenResource ?cr') =
        \<lparr>outcome = Returned obs None, resource = AccessTokenResource cr'',
         remoteCalls = [GetCall pid n]\<rparr>
      \<and> \<not> ResourceLateInitialized obs
      \<and> Spec_ForProvider cr'' = Spec_ForProvider ?cr'"
    unfolding Observe_success [OF run pid assms(4)]
    by (simp add: lateInitialize_twice)
  have "Spec_ForProvider ?cr' = ?p'"
    by simp
  with first second have "\<exists>cr'.
      resource (Observe e now (AccessTokenResource cr)) = AccessTokenResource cr'
      \<and> Spec_ForProvider cr' = ?p'
      \<and> (\<exists>obs cr''.
            Observe e now' (AccessTokenResource cr') =
              \<lparr>outcome = Returned obs None, resource = AccessTokenResource cr'',
               remoteCalls = [GetCall pid n]\<rparr>
            \<and> \<not> ResourceLateInitialized obs
            \<and> Spec_ForProvider cr'' = Spec_ForProvider cr')"
    by blast
  then show ?thesis
    by (simp add: lateInitialize_twice)
qed

theorem lateInitialize_idempotent_witness:
  "GetExternalName exampleResource \<noteq> []
   \<and> Atoi (GetExternalName exampleResource) = Inr 42
   \<and> p_ProjectID (Spec_ForProvider exampleResource) = Some ''1234''
   \<and> GetProjectAccessToken answeringClient ''1234'' 42 = (Some exampleToken, None, None)
   \<and> (\<exists>cr'.
        resource (Observe answeringClient exampleNow (AccessTokenResource exampleResource)) =
          AccessTokenResource cr'
        \<and> Spec_ForProvider cr' =
            lateInitializeProjectAccessToken (Spec_ForProvider exampleResource) (Some exampleToken)
        \<and> (\<exists>obs cr''.
              Observe answeringClient exampleNow (AccessTokenResource cr') =
                \<lparr>outcome = Returned obs None, resource = AccessTokenResource cr'',
                 remoteCalls = [GetCall ''1234'' 42]\<rparr>
              \<and> \<not> ResourceLateInitialized obs
              \<and> Spec_ForProvider cr'' = Spec_ForProvider cr'))"
  using example_premises answeringClient_Get [of "''1234''" 42]
    lateInitialize_idempotent [OF example_premises answeringClient_Get,
      where now = exampleNow and now' = exampleNow and p = exampleParameters and at = None]
  by blast

section \<open>Validation before the remote call\<close>

text \<open>
  Claim C8. On a resource whose \<open>ProjectID\<close> is unset, \<open>Create\<close> fails with the error of the
  missing project and makes no remote call. On a resource whose identity binding does not
  parse as an integer, \<open>Delete\<close> fails with the error of the non-integer external name and
  makes no remote call. Neither changes the resource.
\<close>

theorem validation_before_remote_call:
  "(p_ProjectID (Spec_ForProvider cr) = None \<longrightarrow>
      Create e (AccessTokenResource cr) =
        \<lparr>outcome = Returned noCreation (Some (errors_New errMissingProjectID)),
         resource = AccessTokenResource cr, remoteCalls = []\<rparr>)
   \<and> (\<forall>err. Atoi (GetExternalName cr) = Inl err \<longrightarrow>
      Delete e (AccessTokenResource cr) =
        \<lparr>outcome = Returned () (Some (errors_New errExternalNameNotInt)),
         resource = AccessTokenResource cr, remoteCalls = []\<rparr>)"
  by (simp add: Create_def Delete_def)

theorem validation_before_remote_call_witness:
  "p_ProjectID (Spec_ForProvider exampleNoProject) = None
   \<and> Create answeringClient (AccessTokenResource exampleNoProject) =
        \<lparr>outcome = Returned noCreation (Some (errors_New errMissingProjectID)),
         resource = AccessTokenResource exampleNoProject, remoteCalls = []\<rparr>
   \<and> Atoi (GetExternalName exampleBadName) = Inl (NumError ''abc'' ErrSyntax)
   \<and> Delete answeringClient (AccessTokenResource exampleBadName) =
        \<lparr>outcome = Returned () (Some (errors_New errExternalNameNotInt)),
         resource = AccessTokenResource exampleBadName, remoteCalls = []\<rparr>"
proof -
  have p: "p_ProjectID (Spec_ForProvider exampleNoProject) = None"
    by (simp add: exampleNoProject_def)
  have "GetExternalName exampleBadName = ''abc''"
    by (simp add: GetExternalName_def exampleBadName_def)
  then have b: "Atoi (GetExternalName exampleBadName) = Inl (NumError ''abc'' ErrSyntax)"
    by (simp add: Atoi_abc)
  show ?thesis
    using p b
      validation_before_remote_call [of exampleNoProject answeringClient]
      validation_before_remote_call [of exampleBadName answeringClient]
    by blast
qed

text \<open>\<open>Update\<close> on any resource whose identity binding parses and whose \<open>ProjectID\<close> is
  unset.\<close>

lemma Update_nil_ProjectID:
  assumes "GetExternalName cr \<noteq> []"
    and "Atoi (GetExternalName cr) = Inr n"
    and "p_ProjectID (Spec_ForProvider cr) = None"
  shows "Update e now (AccessTokenResource cr) =
      \<lparr>outcome = Panicked NilPointerDereference,
       resource = AccessTokenResource cr, remoteCalls = []\<rparr>"
  using assms by (simp add: Update_def Let_def)

text \<open>
  Claim C1. An \<open>Update\<close> on a resource whose identity binding parses as an integer and whose
  \<open>ProjectID\<close> is unset would fail with the error of the missing project. The code has no
  such branch: it dereferences the nil \<open>ProjectID\<close> while it evaluates the arguments of the
  remote call, and panics. No remote call is made and no error is returned.
\<close>

theorem Update_unset_ProjectID_panics:
  "GetExternalName exampleNoProject = ''42''
   \<and> Atoi ''42'' = Inr 42
   \<and> p_ProjectID (Spec_ForProvider exampleNoProject) = None
   \<and> Update answeringClient exampleNow (AccessTokenResource exampleNoProject) =
       \<lparr>outcome = Panicked NilPointerDereference,
        resource = AccessTokenResource exampleNoProject,
        remoteCalls = []\<rparr>"
proof -
  have n: "GetExternalName exampleNoProject = ''42''"
    by (simp add: GetExternalName_def exampleNoProject_def exampleResource_def)
  have p: "p_ProjectID (Spec_ForProvider exampleNoProject) = None"
    by (simp add: exampleNoProject_def)
  have "Update answeringClient exampleNow (AccessTokenResource exampleNoProject) =
       \<lparr>outcome = Panicked NilPointerDereference,
        resource = AccessTokenResource exampleNoProject,
        remoteCalls = []\<rparr>"
    using n p by (intro Update_nil_ProjectID) (simp_all add: Atoi_42)
  with n p show ?thesis
    by (simp add: Atoi_42)
qed

section \<open>The rotation policy\<close>

lemma sint_day: "sint (24 * Hour) = 86400000000000"
  by (simp add: Hour_def)

lemma rotationExpiresAt_int:
  "rotationExpiresAt at p now =
     (now + sint (rotationTTL at p))
       - (now + sint (rotationTTL at p)) mod 86400000000000"
  by (simp add: rotationExpiresAt_def Time_Truncate_def Time_Add_def sint_day)

lemma rotationTTL_in_range:
  assumes "p_RotateThreshold p = Some rt"
    and "- 4611686018427387904 \<le> sint rt" and "sint rt < 4611686018427387904"
  shows "sint (rotationTTL at p) = max (sint (TotalDuration at)) (2 * sint rt)"
  using assms
  by (auto simp add: rotationTTL_def Duration_max_def sint_Duration_twice max_def Let_def)

lemma Update_request:
  assumes "GetExternalName cr \<noteq> []"
    and "Atoi (GetExternalName cr) = Inr n"
    and "p_ProjectID (Spec_ForProvider cr) = Some pid"
  shows "remoteCalls (Update e now (AccessTokenResource cr)) =
      [RotateCall pid n \<lparr>rot_ExpiresAt =
         Some (rotationExpiresAt (Status_AtProvider cr) (Spec_ForProvider cr) now)\<rparr>]"
  using assms by (simp add: Update_def Let_def split: prod.splits option.splits)

text \<open>
  Claim C3, as stated: for every observed and desired state the time to live is
  \<open>TotalDuration\<close>, raised to twice \<open>RotateThreshold\<close> when that is set. Durations are 64-bit
  counts of nanoseconds and the doubling wraps: with a total duration of 48 hours and a
  threshold of \<open>2^62\<close> nanoseconds (about 146 years) the product is negative, and the time to
  live stays at 48 hours, not at twice the threshold.
\<close>

theorem rotation_policy_overflow:
  "p_RotateThreshold (exampleParameters\<lparr>p_RotateThreshold := Some 4611686018427387904\<rparr>) =
     Some 4611686018427387904
   \<and> sint (4611686018427387904 :: Duration) = 4611686018427387904
   \<and> sint (TotalDuration exampleObserved) = 172800000000000
   \<and> sint (rotationTTL exampleObserved
         (exampleParameters\<lparr>p_RotateThreshold := Some 4611686018427387904\<rparr>)) =
       172800000000000
   \<and> sint (rotationTTL exampleObserved
         (exampleParameters\<lparr>p_RotateThreshold := Some 4611686018427387904\<rparr>))
       \<noteq> max (sint (TotalDuration exampleObserved))
             (2 * sint (4611686018427387904 :: Duration))"
  by (simp add: rotationTTL_def Duration_max_def TotalDuration_example)

text \<open>
  Claim C3, amended. The time to live is \<open>TotalDuration\<close> when \<open>RotateThreshold\<close> is unset;
  when it is set and its double fits a duration (the threshold lies from \<open>-2^62\<close> up to,
  not including, \<open>2^62\<close> nanoseconds), the time to live is the greater of \<open>TotalDuration\<close> and
  twice the threshold. The expiration asked for is \<open>now\<close> plus the time to live, rounded
  down to a midnight in UTC: a multiple of 24 hours, at most \<open>now\<close> plus the time to live
  and less than 24 hours below it. With a total duration of 48 hours and a threshold of 30
  hours, the time to live is 60 hours. \<open>Update\<close> sends that expiration in its one remote
  call.
\<close>

theorem rotation_policy:
  "(p_RotateThreshold p = None \<longrightarrow> rotationTTL at p = TotalDuration at)
   \<and> (\<forall>rt. p_RotateThreshold p = Some rt \<longrightarrow>
          - 4611686018427387904 \<le> sint rt \<longrightarrow> sint rt < 4611686018427387904 \<longrightarrow>
          sint (rotationTTL at p) = max (sint (TotalDuration at)) (2 * sint rt))
   \<and> rotationExpiresAt at p now mod 86400000000000 = 0
   \<and> rotationExpiresAt at p now \<le> now + sint (rotationTTL at p)
   \<and> now + sint (rotationTTL at p) < rotationExpiresAt at p now + 86400000000000
   \<and> (sint (TotalDuration at) = 48 * 3600000000000 \<longrightarrow>
        p_RotateThreshold p = Some (30 * Hour) \<longrightarrow>
          sint (rotationTTL at p) = 60 * 3600000000000
          \<and> rotationExpiresAt at p now =
              (now + 60 * 3600000000000) - (now + 60 * 3600000000000) mod 86400000000000)
   \<and> (GetExternalName cr \<noteq> [] \<longrightarrow> Atoi (GetExternalName cr) = Inr n \<longrightarrow>
        p_ProjectID (Spec_ForProvider cr) = Some pid \<longrightarrow>
          remoteCalls (Update e now (AccessTokenResource cr)) =
            [RotateCall pid n \<lparr>rot_ExpiresAt =
               Some (rotationExpiresAt (Status_AtProvider cr) (Spec_ForProvider cr) now)\<rparr>])"
proof -
  have unset: "p_RotateThreshold p = None \<longrightarrow> rotationTTL at p = TotalDuration at"
    by (simp add: rotationTTL_def)
  have fits: "\<forall>rt. p_RotateThreshold p = Some rt \<longrightarrow>
          - 4611686018427387904 \<le> sint rt \<longrightarrow> sint rt < 4611686018427387904 \<longrightarrow>
          sint (rotationTTL at p) = max (sint (TotalDuration at)) (2 * sint rt)"
    using rotationTTL_in_range by blast
  have midnight: "rotationExpiresAt at p now mod 86400000000000 = 0"
    unfolding rotationExpiresAt_int by (simp add: mod_simps)
  have below: "rotationExpiresAt at p now \<le> now + sint (rotationTTL at p)"
    unfolding rotationExpiresAt_int by simp
  have near: "now + sint (rotationTTL at p) < rotationExpiresAt at p now + 86400000000000"
    unfolding rotationExpiresAt_int
    using pos_mod_bound [of 86400000000000 "now + sint (rotationTTL at p)"] by simp
  have s30: "sint (30 * Hour) = 108000000000000"
    by (simp add: Hour_def)
  have example: "sint (TotalDuration at) = 48 * 3600000000000 \<longrightarrow>
        p_RotateThreshold p = Some (30 * Hour) \<longrightarrow>
          sint (rotationTTL at p) = 60 * 3600000000000
          \<and> rotationExpiresAt at p now =
              (now + 60 * 3600000000000) - (now + 60 * 3600000000000) mod 86400000000000"
  proof (intro impI)
    assume td: "sint (TotalDuration at) = 48 * 3600000000000"
      and rt: "p_RotateThreshold p = Some (30 * Hour)"
    have "sint (rotationTTL at p) = max (sint (TotalDuration at)) (2 * sint (30 * Hour))"
      using rt by (rule rotationTTL_in_range) (simp_all add: s30)
    then have ttl: "sint (rotationTTL at p) = 60 * 3600000000000"
      by (simp add: td s30)
    then show "sint (rotationTTL at p) = 60 * 3600000000000
          \<and> rotationExpiresAt at p now =
              (now + 60 * 3600000000000) - (now + 60 * 3600000000000) mod 86400000000000"
      by (simp add: rotationExpiresAt_int)
  qed
  have request: "GetExternalName cr \<noteq> [] \<longrightarrow> Atoi (GetExternalName cr) = Inr n \<longrightarrow>
        p_ProjectID (Spec_ForProvider cr) = Some pid \<longrightarrow>
          remoteCalls (Update e now (AccessTokenResource cr)) =
            [RotateCall pid n \<lparr>rot_ExpiresAt =
               Some (rotationExpiresAt (Status_AtProvider cr) (Spec_ForProvider cr) now)\<rparr>]"
    using Update_request by blast
  from unset fits midnight below near example request show ?thesis by blast
qed

theorem rotation_policy_witness:
  "p_RotateThreshold (exampleParameters\<lparr>p_RotateThreshold := None\<rparr>) = None
   \<and> rotationTTL exampleObserved (exampleParameters\<lparr>p_RotateThreshold := None\<rparr>) =
       TotalDuration exampleObserved
   \<and> p_RotateThreshold exampleParameters = Some (30 * Hour)
   \<and> - 4611686018427387904 \<le> sint (30 * Hour) \<and> sint (30 * Hour) < 4611686018427387904
   \<and> sint (TotalDuration exampleObserved) = 48 * 3600000000000
   \<and> sint (rotationTTL exampleObserved exampleParameters) = 60 * 3600000000000
   \<and> rotationExpiresAt exampleObserved exampleParameters exampleNow =
       (exampleNow + 60 * 3600000000000) - (exampleNow + 60 * 3600000000000) mod 86400000000000
   \<and> GetExternalName exampleResource \<noteq> []
   \<and> Atoi (GetExternalName exampleResource) = Inr 42
   \<and> p_ProjectID (Spec_ForProvider exampleResource) = Some ''1234''
   \<and> remoteCalls (Update answeringClient exampleNow (AccessTokenResource exampleResource)) =
       [RotateCall ''1234'' 42 \<lparr>rot_ExpiresAt =
          Some (rotationExpiresAt (Status_AtProvider exampleResource)
                  (Spec_ForProvider exampleResource) exampleNow)\<rparr>]"
proof -
  have u: "p_RotateThreshold (exampleParameters\<lparr>p_RotateThreshold := None\<rparr>) = None"
    by simp
  have r: "p_RotateThreshold exampleParameters = Some (30 * Hour)"
    by (simp add: exampleParameters_def)
  have s30: "- 4611686018427387904 \<le> sint (30 * Hour)" "sint (30 * Hour) < 4611686018427387904"
    by (simp_all add: Hour_def)
  have td: "sint (TotalDuration exampleObserved) = 48 * 3600000000000"
    by (simp add: TotalDuration_example)
  show ?thesis
    using u r s30 td example_premises
      rotation_policy [where p = "exampleParameters\<lparr>p_RotateThreshold := None\<rparr>"
        and at = exampleObserved and now = exampleNow and cr = exampleResource
        and n = 42 and pid = "''1234''" and e = answeringClient]
      rotation_policy [where p = exampleParameters
        and at = exampleObserved and now = exampleNow and cr = exampleResource
        and n = 42 and pid = "''1234''" and e = answeringClient]
    by blast
qed

text \<open>The example at 15:30 of 2024-01-01: 60 hours later it is 03:30 of 2024-01-04, and the
  expiration asked for is midnight of 2024-01-04.\<close>

lemma rotationExpiresAt_example:
  "rotationExpiresAt exampleObserved exampleParameters exampleNow = 63839923200000000000"
proof -
  have "sint (rotationTTL exampleObserved exampleParameters) = 216000000000000"
    using rotationTTL_in_range [of exampleParameters "30 * Hour" exampleObserved]
    by (simp add: exampleParameters_def Hour_def TotalDuration_example)
  then show ?thesis
    by (simp add: rotationExpiresAt_int exampleNow_def)
qed

section \<open>Remote failures\<close>

text \<open>
  Claim C10, as stated: whenever the remote fetch of \<open>Observe\<close> returns an error, \<open>Observe\<close>
  returns that error, wrapped. When the failed fetch comes with a "not found" response,
  \<open>Observe\<close> returns no error.
\<close>

theorem Observe_not_found_no_error:
  "GetProjectAccessToken notFoundClient ''1234'' 42 =
     (None, Some \<lparr>StatusCode = 404\<rparr>, Some (ClientError ''404 Not Found''))
   \<and> outcome (Observe notFoundClient exampleNow (AccessTokenResource exampleResource)) =
       Returned noObservation None
   \<and> outcome (Observe notFoundClient exampleNow (AccessTokenResource exampleResource)) \<noteq>
       Returned noObservation
         (Some (errors_Wrapped (ClientError ''404 Not Found'') errAccessTokentNotFound))"
  using example_premises
  by (simp add: Observe_def notFoundClient_def stubClient_def IsResponseNotFound_def)

text \<open>
  Claim C10, amended. When the remote call of \<open>Observe\<close>, \<open>Create\<close> or \<open>Update\<close> returns an
  error, the operation leaves the resource as it was (observed state and identity binding
  included) and emits no connection secret. \<open>Create\<close> and \<open>Update\<close> return that error,
  wrapped; \<open>Observe\<close> returns it wrapped unless the response is "not found", and then returns
  no error.
\<close>

theorem remote_error_leaves_resource:
  "(GetExternalName cr \<noteq> [] \<longrightarrow> Atoi (GetExternalName cr) = Inr n \<longrightarrow>
      p_ProjectID (Spec_ForProvider cr) = Some pid \<longrightarrow>
      GetProjectAccessToken e pid n = (at, res, Some err) \<longrightarrow>
      Observe e now (AccessTokenResource cr) =
        \<lparr>outcome = Returned noObservation
           (if IsResponseNotFound res then None
            else Some (errors_Wrapped err errAccessTokentNotFound)),
         resource = AccessTokenResource cr, remoteCalls = [GetCall pid n]\<rparr>)
   \<and> (p_ProjectID (Spec_ForProvider cr) = Some pid \<longrightarrow>
      CreateProjectAccessToken e pid
        (GenerateCreateProjectAccessTokenOptions (ObjectMeta_Name cr) (Spec_ForProvider cr)) =
        (at, res, Some err) \<longrightarrow>
      Create e (AccessTokenResource cr) =
        \<lparr>outcome = Returned noCreation (Some (errors_Wrapped err errCreateFailed)),
         resource = AccessTokenResource cr,
         remoteCalls = [CreateCall pid
           (GenerateCreateProjectAccessTokenOptions (ObjectMeta_Name cr) (Spec_ForProvider cr))]\<rparr>)
   \<and> (GetExternalName cr \<noteq> [] \<longrightarrow> Atoi (GetExternalName cr) = Inr n \<longrightarrow>
      p_ProjectID (Spec_ForProvider cr) = Some pid \<longrightarrow>
      RotateProjectAccessToken e pid n
        \<lparr>rot_ExpiresAt =
           Some (rotationExpiresAt (Status_AtProvider cr) (Spec_ForProvider cr) now)\<rparr> =
        (at, res, Some err) \<longrightarrow>
      Update e now (AccessTokenResource cr) =
        \<lparr>outcome = Returned noUpdate (Some (errors_Wrapped err errRotationFailed)),
         resource = AccessTokenResource cr,
         remoteCalls = [RotateCall pid n
           \<lparr>rot_ExpiresAt =
              Some (rotationExpiresAt (Status_AtProvider cr) (Spec_ForProvider cr) now)\<rparr>]\<rparr>)
   \<and> o_ConnectionDetails noObservation = Map.empty
   \<and> c_ConnectionDetails noCreation = Map.empty
   \<and> u_ConnectionDetails noUpdate = Map.empty"
  by (simp add: Observe_def Create_def Update_def Let_def errors_Wrap_def
      noObservation_def noCreation_def noUpdate_def)

theorem remote_error_leaves_resource_witness:
  "GetExternalName exampleResource \<noteq> []
   \<and> Atoi (GetExternalName exampleResource) = Inr 42
   \<and> p_ProjectID (Spec_ForProvider exampleResource) = Some ''1234''
   \<and> GetProjectAccessToken failingClient ''1234'' 42 =
       (None, Some \<lparr>StatusCode = 500\<rparr>, Some (ClientError ''500 Internal Server Error''))
   \<and> \<not> IsResponseNotFound (Some \<lparr>StatusCode = 500\<rparr>)
   \<and> Observe failingClient exampleNow (AccessTokenResource exampleResource) =
        \<lparr>outcome = Returned noObservation
           (Some (errors_Wrapped (ClientError ''500 Internal Server Error'')
              errAccessTokentNotFound)),
         resource = AccessTokenResource exampleResource,
         remoteCalls = [GetCall ''1234'' 42]\<rparr>
   \<and> outcome (Create failingClient (AccessTokenResource exampleResource)) =
        Returned noCreation
          (Some (errors_Wrapped (ClientError ''500 Internal Server Error'') errCreateFailed))
   \<and> resource (Create failingClient (AccessTokenResource exampleResource)) =
        AccessTokenResource exampleResource
   \<and> outcome (Update failingClient exampleNow (AccessTokenResource exampleResource)) =
        Returned noUpdate
          (Some (errors_Wrapped (ClientError ''500 Internal Server Error'') errRotationFailed))
   \<and> resource (Update failingClient exampleNow (AccessTokenResource exampleResource)) =
        AccessTokenResource exampleResource"
proof -
  have g: "GetProjectAccessToken failingClient ''1234'' 42 =
       (None, Some \<lparr>StatusCode = 500\<rparr>, Some (ClientError ''500 Internal Server Error''))"
    by (simp add: failingClient_def stubClient_def)
  have c: "CreateProjectAccessToken failingClient ''1234''
        (GenerateCreateProjectAccessTokenOptions (ObjectMeta_Name exampleResource)
           (Spec_ForProvider exampleResource)) =
       (None, Some \<lparr>StatusCode = 500\<rparr>, Some (ClientError ''500 Internal Server Error''))"
    by (simp add: failingClient_def stubClient_def)
  have r: "RotateProjectAccessToken failingClient ''1234'' 42
        \<lparr>rot_ExpiresAt = Some (rotationExpiresAt (Status_AtProvider exampleResource)
           (Spec_ForProvider exampleResource) exampleNow)\<rparr> =
       (None, Some \<lparr>StatusCode = 500\<rparr>, Some (ClientError ''500 Internal Server Error''))"
    by (simp add: failingClient_def stubClient_def)
  have nf: "\<not> IsResponseNotFound (Some \<lparr>StatusCode = 500\<rparr>)"
    by (simp add: IsResponseNotFound_def)
  show ?thesis
    using g c r nf example_premises
      remote_error_leaves_resource [of exampleResource 42 "''1234''" failingClient None
        "Some \<lparr>StatusCode = 500\<rparr>" "ClientError ''500 Internal Server Error''" exampleNow]
    by simp
qed

end
